theory Spec2Isabelle
  imports Main
begin

section \<open>Values shared by both services\<close>

text \<open>
  Go's \<open>error\<close> values built by \<open>errors.New\<close> and \<open>fmt.Errorf\<close> carry a message;
  errors handed back by the client are values of the same type.
\<close>

datatype error = errors_New string

text \<open>
  \<open>fmt.Sprintf("%d", n)\<close>: the decimal digits of \<open>n\<close>, with a leading minus sign for a
  negative number. Go's \<open>int\<close> is a machine integer; the services only print it, they
  never compute with it, so it is kept as a HOL integer.
\<close>

fun nat_decimal :: "nat \<Rightarrow> string" where
  "nat_decimal n =
     (if n < 10 then [''0123456789'' ! n]
      else nat_decimal (n div 10) @ [''0123456789'' ! (n mod 10)])"

declare nat_decimal.simps [simp del]

definition fmt_d :: "int \<Rightarrow> string" where
  "fmt_d i = (if i < 0 then CHR ''-'' # nat_decimal (nat (- i)) else nat_decimal (nat i))"

text \<open>
  \<open>url.QueryEscape\<close> of Go's standard library: letters, digits and the marks
  \<open>- _ . ~\<close> stay, a space becomes \<open>+\<close>, every other byte becomes \<open>%XX\<close> with
  upper-case hexadecimal digits.
\<close>

definition shouldEscape :: "char \<Rightarrow> bool" where
  "shouldEscape c =
     (let n = (of_char c :: nat) in
      \<not> ((97 \<le> n \<and> n \<le> 122) \<or> (65 \<le> n \<and> n \<le> 90) \<or> (48 \<le> n \<and> n \<le> 57)
         \<or> c = CHR ''-'' \<or> c = CHR ''_'' \<or> c = CHR ''.'' \<or> c = CHR ''~''))"

definition percent_encode :: "char \<Rightarrow> string" where
  "percent_encode c =
     [CHR ''%'', ''0123456789ABCDEF'' ! ((of_char c :: nat) div 16),
      ''0123456789ABCDEF'' ! ((of_char c :: nat) mod 16)]"

fun url_QueryEscape :: "string \<Rightarrow> string" where
  "url_QueryEscape [] = []"
| "url_QueryEscape (c # cs) =
     (if shouldEscape c then (if c = CHR '' '' then ''+'' else percent_encode c) else [c])
     @ url_QueryEscape cs"

text \<open>
  The \<open>Response\<close> returned by the client wraps the HTTP response; the services read its
  \<open>StatusCode\<close> only.
\<close>

record Response =
  StatusCode :: int

text \<open>
  The second argument of \<open>client.Do\<close> is \<open>nil\<close>, the pointer \<open>new(T)\<close> or the
  address \<open>&x\<close> of a variable declared just before, which holds the zero value of its
  type or such a \<open>new(T)\<close>.
\<close>

datatype gotype = Named string | PtrTo gotype | SliceOf gotype

datatype govalue = GoNil | Zero gotype | AddrOf govalue

definition new :: "gotype \<Rightarrow> govalue" where
  "new T = AddrOf (Zero T)"

section \<open>Options structs\<close>

text \<open>
  A pointer field of an options struct is an \<open>option\<close>: \<open>None\<close> is the nil pointer.
  A slice field is an \<open>option\<close> too: \<open>None\<close> is the nil slice.
  \<open>time.Time\<close> and \<open>ISOTime\<close> are instants, kept as seconds since the epoch;
  \<open>BuildStateValue\<close> and \<open>FileAction\<close> are string types.
\<close>

type_synonym time_Time = int
type_synonym ISOTime = int
type_synonym BuildStateValue = string
type_synonym FileAction = string

text \<open>
  Modelled from the spec: \<open>ListOptions\<close> is declared outside the two source files; the
  spec names it as the pagination options whose page the caller increments. It has the
  page and the number of entries per page, two integers that are not pointers.
\<close>

record ListOptions =
  Page :: int
  PerPage :: int

subsection \<open>commits.go\<close>

record ListCommitsOptions =
  ListOptions :: ListOptions
  RefName :: "string option"
  Since :: "time_Time option"
  Until :: "time_Time option"
  Path :: "string option"
  All :: "bool option"
  WithStats :: "bool option"

record CommitAction =
  Action :: FileAction
  FilePath :: string
  PreviousPath :: string
  Content :: string
  Encoding :: string

record GetCommitRefsOptions =
  ListOptions :: ListOptions
  Type :: "string option"

record CreateCommitOptions =
  Branch :: "string option"
  CommitMessage :: "string option"
  StartBranch :: "string option"
  Actions :: "CommitAction list option"
  AuthorEmail :: "string option"
  AuthorName :: "string option"

type_synonym GetCommitDiffOptions = ListOptions

type_synonym GetCommitCommentsOptions = ListOptions

record PostCommitCommentOptions =
  Note :: "string option"
  Path :: "string option"
  Line :: "int option"
  LineType :: "string option"

record GetCommitStatusesOptions =
  ListOptions :: ListOptions
  Ref :: "string option"
  Stage :: "string option"
  Name :: "string option"
  All :: "bool option"

record SetCommitStatusOptions =
  State :: BuildStateValue
  Ref :: "string option"
  Name :: "string option"
  Context :: "string option"
  TargetURL :: "string option"
  Description :: "string option"

record CherryPickCommitOptions =
  TargetBranch :: "string option"

subsection \<open>users.go\<close>

record ListUsersOptions =
  ListOptions :: ListOptions
  Active :: "bool option"
  Blocked :: "bool option"
  Search :: "string option"
  Username :: "string option"
  ExternalUID :: "string option"
  Provider :: "string option"
  CreatedBefore :: "time_Time option"
  CreatedAfter :: "time_Time option"
  OrderBy :: "string option"
  Sort :: "string option"
  WithCustomAttributes :: "bool option"

record CreateUserOptions =
  Email :: "string option"
  Password :: "string option"
  ResetPassword :: "bool option"
  Username :: "string option"
  Name :: "string option"
  Skype :: "string option"
  Linkedin :: "string option"
  Twitter :: "string option"
  WebsiteURL :: "string option"
  Organization :: "string option"
  ProjectsLimit :: "int option"
  ExternUID :: "string option"
  Provider :: "string option"
  Bio :: "string option"
  Location :: "string option"
  Admin :: "bool option"
  CanCreateGroup :: "bool option"
  SkipConfirmation :: "bool option"
  External :: "bool option"

record ModifyUserOptions =
  Email :: "string option"
  Password :: "string option"
  Username :: "string option"
  Name :: "string option"
  Skype :: "string option"
  Linkedin :: "string option"
  Twitter :: "string option"
  WebsiteURL :: "string option"
  Organization :: "string option"
  ProjectsLimit :: "int option"
  ExternUID :: "string option"
  Provider :: "string option"
  Bio :: "string option"
  Location :: "string option"
  Admin :: "bool option"
  CanCreateGroup :: "bool option"
  SkipReconfirmation :: "bool option"
  External :: "bool option"

type_synonym ListSSHKeysForUserOptions = ListOptions

record AddSSHKeyOptions =
  Title :: "string option"
  Key :: "string option"

type_synonym ListEmailsForUserOptions = ListOptions

record AddEmailOptions =
  Email :: "string option"

record GetAllImpersonationTokensOptions =
  ListOptions :: ListOptions
  State :: "string option"

record CreateImpersonationTokenOptions =
  Name :: "string option"
  Scopes :: "string list option"
  ExpiresAt :: "time_Time option"

record GetUserActivitiesOptions =
  From :: "ISOTime option"

record UserStatusOptions =
  Emoji :: "string option"
  Message :: "string option"

subsection \<open>Struct tags\<close>

text \<open>
  Every field of an options struct carries a \<open>url\<close> tag, read when the options become
  a query string, and a \<open>json\<close> tag, read when they become a request body. A tag is a
  wire name followed by comma-separated options.

  The content of a field is a nil pointer, a pointer to a value, a value that is not behind
  a pointer, a nil slice or a slice.
\<close>

datatype wire =
    WNull
  | WString string
  | WInt int
  | WBool bool
  | WTime time_Time
  | WStrings "string list"
  | WAction CommitAction
  | WList "wire list"

datatype content =
    NilPointer
  | Pointer wire
  | Plain wire
  | NilSlice
  | Slice "wire list"

definition pointer :: "('a \<Rightarrow> wire) \<Rightarrow> 'a option \<Rightarrow> content" where
  "pointer w p = (case p of None \<Rightarrow> NilPointer | Some x \<Rightarrow> Pointer (w x))"

definition slice :: "('a \<Rightarrow> wire) \<Rightarrow> 'a list option \<Rightarrow> content" where
  "slice w xs = (case xs of None \<Rightarrow> NilSlice | Some ys \<Rightarrow> Slice (map w ys))"

record field =
  url_tag :: string
  json_tag :: string
  content :: content





subsection \<open>The tagged fields of each struct, in the order of declaration\<close>


















text \<open>
  \<open>NewRequest\<close> takes the options as an \<open>interface{}\<close>: the untyped \<open>nil\<close>, or a
  pointer (which may itself be nil) to one of the options structs.
\<close>

datatype opt =
    NilOpt
  | ListCommitsOpt "ListCommitsOptions option"
  | GetCommitRefsOpt "GetCommitRefsOptions option"
  | CreateCommitOpt "CreateCommitOptions option"
  | GetCommitDiffOpt "GetCommitDiffOptions option"
  | GetCommitCommentsOpt "GetCommitCommentsOptions option"
  | PostCommitCommentOpt "PostCommitCommentOptions option"
  | GetCommitStatusesOpt "GetCommitStatusesOptions option"
  | SetCommitStatusOpt "SetCommitStatusOptions option"
  | CherryPickCommitOpt "CherryPickCommitOptions option"
  | ListUsersOpt "ListUsersOptions option"
  | CreateUserOpt "CreateUserOptions option"
  | ModifyUserOpt "ModifyUserOptions option"
  | ListSSHKeysForUserOpt "ListSSHKeysForUserOptions option"
  | AddSSHKeyOpt "AddSSHKeyOptions option"
  | ListEmailsForUserOpt "ListEmailsForUserOptions option"
  | AddEmailOpt "AddEmailOptions option"
  | GetAllImpersonationTokensOpt "GetAllImpersonationTokensOptions option"
  | CreateImpersonationTokenOpt "CreateImpersonationTokenOptions option"
  | GetUserActivitiesOpt "GetUserActivitiesOptions option"
  | UserStatusOpt "UserStatusOptions option"




subsection \<open>What the encoders make of the fields\<close>









section \<open>The shared client\<close>

text \<open>
  \<open>Client\<close>, with its methods \<open>NewRequest\<close> and \<open>Do\<close>, and the function \<open>parseID\<close>
  are declared outside the two source files, so they are parameters here: any function
  may stand for each of them. \<open>NewRequest\<close> gives an error or a request. \<open>Do\<close> gives what it
  left in the variable its second argument points to, the response (nil or not) and an
  error (nil or not). \<open>parseID\<close> gives an error or the identifier as a string.
  The type \<open>'f\<close> is that of \<open>OptionFunc\<close>.
\<close>

record ('req, 'v, 'f) Client =
  NewRequest :: "string \<Rightarrow> string \<Rightarrow> opt \<Rightarrow> 'f list \<Rightarrow> error + 'req"
  Do :: "'req \<Rightarrow> govalue \<Rightarrow> 'v \<times> Response option \<times> error option"

text \<open>
  Every call of a method of the client is written to a log, so that what a service method
  asked of the client, and how often, can be stated.
\<close>

datatype ('req, 'f) client_call =
    NewRequestCall string string opt "'f list"
  | DoCall 'req govalue

type_synonym ('req, 'f) log = "('req, 'f) client_call list"

definition client_NewRequest ::
  "('req, 'v, 'f) Client \<Rightarrow> string \<Rightarrow> string \<Rightarrow> opt \<Rightarrow> 'f list \<Rightarrow> ('req, 'f) log
   \<Rightarrow> (error + 'req) \<times> ('req, 'f) log" where
  "client_NewRequest c method path opt options log =
     (NewRequest c method path opt options, log @ [NewRequestCall method path opt options])"

definition client_Do ::
  "('req, 'v, 'f) Client \<Rightarrow> 'req \<Rightarrow> govalue \<Rightarrow> ('req, 'f) log
   \<Rightarrow> ('v \<times> Response option \<times> error option) \<times> ('req, 'f) log" where
  "client_Do c req v log = (Do c req v, log @ [DoCall req v])"

record ('req, 'v, 'f) CommitsService =
  client :: "('req, 'v, 'f) Client"

record ('req, 'v, 'f) UsersService =
  client :: "('req, 'v, 'f) Client"

text \<open>
  A method with the results \<open>(entity, *Response, error)\<close> returns \<open>None\<close> for a nil and
  \<open>Some v\<close> for the variable that \<open>Do\<close> filled.
\<close>

type_synonym 'v entity_result = "'v option \<times> Response option \<times> error option"

type_synonym response_result = "Response option \<times> error option"

text \<open>
  \<open>BlockUser\<close> and \<open>UnblockUser\<close> read \<open>resp.StatusCode\<close>; on a nil \<open>resp\<close> that is a
  nil pointer dereference, which panics.
\<close>

datatype 'a outcome = Returns 'a | NilDereference

section \<open>CommitsService\<close>

definition ListCommits ::
  "('pid \<Rightarrow> error + string) \<Rightarrow> ('req, 'v, 'f) CommitsService \<Rightarrow> 'pid \<Rightarrow> ListCommitsOptions option \<Rightarrow> 'f list
   \<Rightarrow> ('req, 'f) log \<Rightarrow> 'v entity_result \<times> ('req, 'f) log" where
  "ListCommits parseID s pid opt options log =
     (case parseID pid of
        Inl err \<Rightarrow> ((None, None, Some err), log)
      | Inr project \<Rightarrow>
          (let u = ''projects/'' @ url_QueryEscape project @ ''/repository/commits'' in
           case client_NewRequest (CommitsService.client s) ''GET'' u (ListCommitsOpt opt) options log of
             (Inl err, log) \<Rightarrow> ((None, None, Some err), log)
           | (Inr req, log) \<Rightarrow>
               (case client_Do (CommitsService.client s) req (AddrOf (Zero (SliceOf (PtrTo (Named ''Commit''))))) log of
                  ((c, resp, err), log) \<Rightarrow>
                    if err \<noteq> None then ((None, resp, err), log)
                    else ((Some c, resp, err), log))))"

definition GetCommitRefs ::
  "('pid \<Rightarrow> error + string) \<Rightarrow> ('req, 'v, 'f) CommitsService \<Rightarrow> 'pid \<Rightarrow> string \<Rightarrow> GetCommitRefsOptions option \<Rightarrow> 'f list
   \<Rightarrow> ('req, 'f) log \<Rightarrow> 'v entity_result \<times> ('req, 'f) log" where
  "GetCommitRefs parseID s pid sha opt options log =
     (case parseID pid of
        Inl err \<Rightarrow> ((None, None, Some err), log)
      | Inr project \<Rightarrow>
          (let u = ''projects/'' @ url_QueryEscape project @ ''/repository/commits/'' @ sha @ ''/refs'' in
           case client_NewRequest (CommitsService.client s) ''GET'' u (GetCommitRefsOpt opt) options log of
             (Inl err, log) \<Rightarrow> ((None, None, Some err), log)
           | (Inr req, log) \<Rightarrow>
               (case client_Do (CommitsService.client s) req (AddrOf (Zero (SliceOf (Named ''CommitRef'')))) log of
                  ((cs, resp, err), log) \<Rightarrow>
                    if err \<noteq> None then ((None, resp, err), log)
                    else ((Some cs, resp, err), log))))"

definition GetCommit ::
  "('pid \<Rightarrow> error + string) \<Rightarrow> ('req, 'v, 'f) CommitsService \<Rightarrow> 'pid \<Rightarrow> string \<Rightarrow> 'f list
   \<Rightarrow> ('req, 'f) log \<Rightarrow> 'v entity_result \<times> ('req, 'f) log" where
  "GetCommit parseID s pid sha options log =
     (case parseID pid of
        Inl err \<Rightarrow> ((None, None, Some err), log)
      | Inr project \<Rightarrow>
          (let u = ''projects/'' @ url_QueryEscape project @ ''/repository/commits/'' @ sha in
           case client_NewRequest (CommitsService.client s) ''GET'' u NilOpt options log of
             (Inl err, log) \<Rightarrow> ((None, None, Some err), log)
           | (Inr req, log) \<Rightarrow>
               (case client_Do (CommitsService.client s) req (new (Named ''Commit'')) log of
                  ((c, resp, err), log) \<Rightarrow>
                    if err \<noteq> None then ((None, resp, err), log)
                    else ((Some c, resp, err), log))))"

definition CreateCommit ::
  "('pid \<Rightarrow> error + string) \<Rightarrow> ('req, 'v, 'f) CommitsService \<Rightarrow> 'pid \<Rightarrow> CreateCommitOptions option \<Rightarrow> 'f list
   \<Rightarrow> ('req, 'f) log \<Rightarrow> 'v entity_result \<times> ('req, 'f) log" where
  "CreateCommit parseID s pid opt options log =
     (case parseID pid of
        Inl err \<Rightarrow> ((None, None, Some err), log)
      | Inr project \<Rightarrow>
          (let u = ''projects/'' @ url_QueryEscape project @ ''/repository/commits'' in
           case client_NewRequest (CommitsService.client s) ''POST'' u (CreateCommitOpt opt) options log of
             (Inl err, log) \<Rightarrow> ((None, None, Some err), log)
           | (Inr req, log) \<Rightarrow>
               (case client_Do (CommitsService.client s) req (AddrOf (Zero (PtrTo (Named ''Commit'')))) log of
                  ((c, resp, err), log) \<Rightarrow>
                    if err \<noteq> None then ((None, resp, err), log)
                    else ((Some c, resp, err), log))))"

definition GetCommitDiff ::
  "('pid \<Rightarrow> error + string) \<Rightarrow> ('req, 'v, 'f) CommitsService \<Rightarrow> 'pid \<Rightarrow> string \<Rightarrow> GetCommitDiffOptions option \<Rightarrow> 'f list
   \<Rightarrow> ('req, 'f) log \<Rightarrow> 'v entity_result \<times> ('req, 'f) log" where
  "GetCommitDiff parseID s pid sha opt options log =
     (case parseID pid of
        Inl err \<Rightarrow> ((None, None, Some err), log)
      | Inr project \<Rightarrow>
          (let u = ''projects/'' @ url_QueryEscape project @ ''/repository/commits/'' @ sha @ ''/diff'' in
           case client_NewRequest (CommitsService.client s) ''GET'' u (GetCommitDiffOpt opt) options log of
             (Inl err, log) \<Rightarrow> ((None, None, Some err), log)
           | (Inr req, log) \<Rightarrow>
               (case client_Do (CommitsService.client s) req (AddrOf (Zero (SliceOf (PtrTo (Named ''Diff''))))) log of
                  ((d, resp, err), log) \<Rightarrow>
                    if err \<noteq> None then ((None, resp, err), log)
                    else ((Some d, resp, err), log))))"

definition GetCommitComments ::
  "('pid \<Rightarrow> error + string) \<Rightarrow> ('req, 'v, 'f) CommitsService \<Rightarrow> 'pid \<Rightarrow> string \<Rightarrow> GetCommitCommentsOptions option \<Rightarrow> 'f list
   \<Rightarrow> ('req, 'f) log \<Rightarrow> 'v entity_result \<times> ('req, 'f) log" where
  "GetCommitComments parseID s pid sha opt options log =
     (case parseID pid of
        Inl err \<Rightarrow> ((None, None, Some err), log)
      | Inr project \<Rightarrow>
          (let u = ''projects/'' @ url_QueryEscape project @ ''/repository/commits/'' @ sha @ ''/comments'' in
           case client_NewRequest (CommitsService.client s) ''GET'' u (GetCommitCommentsOpt opt) options log of
             (Inl err, log) \<Rightarrow> ((None, None, Some err), log)
           | (Inr req, log) \<Rightarrow>
               (case client_Do (CommitsService.client s) req (AddrOf (Zero (SliceOf (PtrTo (Named ''CommitComment''))))) log of
                  ((c, resp, err), log) \<Rightarrow>
                    if err \<noteq> None then ((None, resp, err), log)
                    else ((Some c, resp, err), log))))"

definition PostCommitComment ::
  "('pid \<Rightarrow> error + string) \<Rightarrow> ('req, 'v, 'f) CommitsService \<Rightarrow> 'pid \<Rightarrow> string \<Rightarrow> PostCommitCommentOptions option \<Rightarrow> 'f list
   \<Rightarrow> ('req, 'f) log \<Rightarrow> 'v entity_result \<times> ('req, 'f) log" where
  "PostCommitComment parseID s pid sha opt options log =
     (case parseID pid of
        Inl err \<Rightarrow> ((None, None, Some err), log)
      | Inr project \<Rightarrow>
          (let u = ''projects/'' @ url_QueryEscape project @ ''/repository/commits/'' @ sha @ ''/comments'' in
           case client_NewRequest (CommitsService.client s) ''POST'' u (PostCommitCommentOpt opt) options log of
             (Inl err, log) \<Rightarrow> ((None, None, Some err), log)
           | (Inr req, log) \<Rightarrow>
               (case client_Do (CommitsService.client s) req (new (Named ''CommitComment'')) log of
                  ((c, resp, err), log) \<Rightarrow>
                    if err \<noteq> None then ((None, resp, err), log)
                    else ((Some c, resp, err), log))))"

definition GetCommitStatuses ::
  "('pid \<Rightarrow> error + string) \<Rightarrow> ('req, 'v, 'f) CommitsService \<Rightarrow> 'pid \<Rightarrow> string \<Rightarrow> GetCommitStatusesOptions option \<Rightarrow> 'f list
   \<Rightarrow> ('req, 'f) log \<Rightarrow> 'v entity_result \<times> ('req, 'f) log" where
  "GetCommitStatuses parseID s pid sha opt options log =
     (case parseID pid of
        Inl err \<Rightarrow> ((None, None, Some err), log)
      | Inr project \<Rightarrow>
          (let u = ''projects/'' @ url_QueryEscape project @ ''/repository/commits/'' @ sha @ ''/statuses'' in
           case client_NewRequest (CommitsService.client s) ''GET'' u (GetCommitStatusesOpt opt) options log of
             (Inl err, log) \<Rightarrow> ((None, None, Some err), log)
           | (Inr req, log) \<Rightarrow>
               (case client_Do (CommitsService.client s) req (AddrOf (Zero (SliceOf (PtrTo (Named ''CommitStatus''))))) log of
                  ((cs, resp, err), log) \<Rightarrow>
                    if err \<noteq> None then ((None, resp, err), log)
                    else ((Some cs, resp, err), log))))"

definition SetCommitStatus ::
  "('pid \<Rightarrow> error + string) \<Rightarrow> ('req, 'v, 'f) CommitsService \<Rightarrow> 'pid \<Rightarrow> string \<Rightarrow> SetCommitStatusOptions option \<Rightarrow> 'f list
   \<Rightarrow> ('req, 'f) log \<Rightarrow> 'v entity_result \<times> ('req, 'f) log" where
  "SetCommitStatus parseID s pid sha opt options log =
     (case parseID pid of
        Inl err \<Rightarrow> ((None, None, Some err), log)
      | Inr project \<Rightarrow>
          (let u = ''projects/'' @ url_QueryEscape project @ ''/statuses/'' @ sha in
           case client_NewRequest (CommitsService.client s) ''POST'' u (SetCommitStatusOpt opt) options log of
             (Inl err, log) \<Rightarrow> ((None, None, Some err), log)
           | (Inr req, log) \<Rightarrow>
               (case client_Do (CommitsService.client s) req (AddrOf (Zero (PtrTo (Named ''CommitStatus'')))) log of
                  ((cs, resp, err), log) \<Rightarrow>
                    if err \<noteq> None then ((None, resp, err), log)
                    else ((Some cs, resp, err), log))))"

definition GetMergeRequestsByCommit ::
  "('pid \<Rightarrow> error + string) \<Rightarrow> ('req, 'v, 'f) CommitsService \<Rightarrow> 'pid \<Rightarrow> string \<Rightarrow> 'f list
   \<Rightarrow> ('req, 'f) log \<Rightarrow> 'v entity_result \<times> ('req, 'f) log" where
  "GetMergeRequestsByCommit parseID s pid sha options log =
     (case parseID pid of
        Inl err \<Rightarrow> ((None, None, Some err), log)
      | Inr project \<Rightarrow>
          (let u = ''projects/'' @ url_QueryEscape project @ ''/repository/commits/''
                 @ url_QueryEscape sha @ ''/merge_requests'' in
           case client_NewRequest (CommitsService.client s) ''GET'' u NilOpt options log of
             (Inl err, log) \<Rightarrow> ((None, None, Some err), log)
           | (Inr req, log) \<Rightarrow>
               (case client_Do (CommitsService.client s) req (AddrOf (Zero (SliceOf (PtrTo (Named ''MergeRequest''))))) log of
                  ((mrs, resp, err), log) \<Rightarrow>
                    if err \<noteq> None then ((None, resp, err), log)
                    else ((Some mrs, resp, err), log))))"

definition CherryPickCommit ::
  "('pid \<Rightarrow> error + string) \<Rightarrow> ('req, 'v, 'f) CommitsService \<Rightarrow> 'pid \<Rightarrow> string \<Rightarrow> CherryPickCommitOptions option \<Rightarrow> 'f list
   \<Rightarrow> ('req, 'f) log \<Rightarrow> 'v entity_result \<times> ('req, 'f) log" where
  "CherryPickCommit parseID s pid sha opt options log =
     (case parseID pid of
        Inl err \<Rightarrow> ((None, None, Some err), log)
      | Inr project \<Rightarrow>
          (let u = ''projects/'' @ url_QueryEscape project @ ''/repository/commits/''
                 @ url_QueryEscape sha @ ''/cherry_pick'' in
           case client_NewRequest (CommitsService.client s) ''POST'' u (CherryPickCommitOpt opt) options log of
             (Inl err, log) \<Rightarrow> ((None, None, Some err), log)
           | (Inr req, log) \<Rightarrow>
               (case client_Do (CommitsService.client s) req (AddrOf (Zero (PtrTo (Named ''Commit'')))) log of
                  ((c, resp, err), log) \<Rightarrow>
                    if err \<noteq> None then ((None, resp, err), log)
                    else ((Some c, resp, err), log))))"

section \<open>UsersService\<close>

definition ListUsers ::
  "('req, 'v, 'f) UsersService \<Rightarrow> ListUsersOptions option \<Rightarrow> 'f list
   \<Rightarrow> ('req, 'f) log \<Rightarrow> 'v entity_result \<times> ('req, 'f) log" where
  "ListUsers s opt options log =
     (case client_NewRequest (UsersService.client s) ''GET'' ''users'' (ListUsersOpt opt) options log of
        (Inl err, log) \<Rightarrow> ((None, None, Some err), log)
      | (Inr req, log) \<Rightarrow>
          (case client_Do (UsersService.client s) req (AddrOf (Zero (SliceOf (PtrTo (Named ''User''))))) log of
             ((usr, resp, err), log) \<Rightarrow>
               if err \<noteq> None then ((None, resp, err), log)
               else ((Some usr, resp, err), log)))"

definition GetUser ::
  "('req, 'v, 'f) UsersService \<Rightarrow> int \<Rightarrow> 'f list
   \<Rightarrow> ('req, 'f) log \<Rightarrow> 'v entity_result \<times> ('req, 'f) log" where
  "GetUser s user options log =
     (let u = ''users/'' @ fmt_d user in
      case client_NewRequest (UsersService.client s) ''GET'' u NilOpt options log of
        (Inl err, log) \<Rightarrow> ((None, None, Some err), log)
      | (Inr req, log) \<Rightarrow>
          (case client_Do (UsersService.client s) req (new (Named ''User'')) log of
             ((usr, resp, err), log) \<Rightarrow>
               if err \<noteq> None then ((None, resp, err), log)
               else ((Some usr, resp, err), log)))"

definition CreateUser ::
  "('req, 'v, 'f) UsersService \<Rightarrow> CreateUserOptions option \<Rightarrow> 'f list
   \<Rightarrow> ('req, 'f) log \<Rightarrow> 'v entity_result \<times> ('req, 'f) log" where
  "CreateUser s opt options log =
     (case client_NewRequest (UsersService.client s) ''POST'' ''users'' (CreateUserOpt opt) options log of
        (Inl err, log) \<Rightarrow> ((None, None, Some err), log)
      | (Inr req, log) \<Rightarrow>
          (case client_Do (UsersService.client s) req (new (Named ''User'')) log of
             ((usr, resp, err), log) \<Rightarrow>
               if err \<noteq> None then ((None, resp, err), log)
               else ((Some usr, resp, err), log)))"

definition ModifyUser ::
  "('req, 'v, 'f) UsersService \<Rightarrow> int \<Rightarrow> ModifyUserOptions option \<Rightarrow> 'f list
   \<Rightarrow> ('req, 'f) log \<Rightarrow> 'v entity_result \<times> ('req, 'f) log" where
  "ModifyUser s user opt options log =
     (let u = ''users/'' @ fmt_d user in
      case client_NewRequest (UsersService.client s) ''PUT'' u (ModifyUserOpt opt) options log of
        (Inl err, log) \<Rightarrow> ((None, None, Some err), log)
      | (Inr req, log) \<Rightarrow>
          (case client_Do (UsersService.client s) req (new (Named ''User'')) log of
             ((usr, resp, err), log) \<Rightarrow>
               if err \<noteq> None then ((None, resp, err), log)
               else ((Some usr, resp, err), log)))"

definition DeleteUser ::
  "('req, 'v, 'f) UsersService \<Rightarrow> int \<Rightarrow> 'f list
   \<Rightarrow> ('req, 'f) log \<Rightarrow> response_result \<times> ('req, 'f) log" where
  "DeleteUser s user options log =
     (let u = ''users/'' @ fmt_d user in
      case client_NewRequest (UsersService.client s) ''DELETE'' u NilOpt options log of
        (Inl err, log) \<Rightarrow> ((None, Some err), log)
      | (Inr req, log) \<Rightarrow>
          (case client_Do (UsersService.client s) req GoNil log of
             ((v, resp, err), log) \<Rightarrow> ((resp, err), log)))"

definition CurrentUser ::
  "('req, 'v, 'f) UsersService \<Rightarrow> 'f list
   \<Rightarrow> ('req, 'f) log \<Rightarrow> 'v entity_result \<times> ('req, 'f) log" where
  "CurrentUser s options log =
     (case client_NewRequest (UsersService.client s) ''GET'' ''user'' NilOpt options log of
        (Inl err, log) \<Rightarrow> ((None, None, Some err), log)
      | (Inr req, log) \<Rightarrow>
          (case client_Do (UsersService.client s) req (new (Named ''User'')) log of
             ((usr, resp, err), log) \<Rightarrow>
               if err \<noteq> None then ((None, resp, err), log)
               else ((Some usr, resp, err), log)))"

definition ListSSHKeys ::
  "('req, 'v, 'f) UsersService \<Rightarrow> 'f list
   \<Rightarrow> ('req, 'f) log \<Rightarrow> 'v entity_result \<times> ('req, 'f) log" where
  "ListSSHKeys s options log =
     (case client_NewRequest (UsersService.client s) ''GET'' ''user/keys'' NilOpt options log of
        (Inl err, log) \<Rightarrow> ((None, None, Some err), log)
      | (Inr req, log) \<Rightarrow>
          (case client_Do (UsersService.client s) req (AddrOf (Zero (SliceOf (PtrTo (Named ''SSHKey''))))) log of
             ((k, resp, err), log) \<Rightarrow>
               if err \<noteq> None then ((None, resp, err), log)
               else ((Some k, resp, err), log)))"

definition ListSSHKeysForUser ::
  "('req, 'v, 'f) UsersService \<Rightarrow> int \<Rightarrow> ListSSHKeysForUserOptions option \<Rightarrow> 'f list
   \<Rightarrow> ('req, 'f) log \<Rightarrow> 'v entity_result \<times> ('req, 'f) log" where
  "ListSSHKeysForUser s user opt options log =
     (let u = ''users/'' @ fmt_d user @ ''/keys'' in
      case client_NewRequest (UsersService.client s) ''GET'' u (ListSSHKeysForUserOpt opt) options log of
        (Inl err, log) \<Rightarrow> ((None, None, Some err), log)
      | (Inr req, log) \<Rightarrow>
          (case client_Do (UsersService.client s) req (AddrOf (Zero (SliceOf (PtrTo (Named ''SSHKey''))))) log of
             ((k, resp, err), log) \<Rightarrow>
               if err \<noteq> None then ((None, resp, err), log)
               else ((Some k, resp, err), log)))"

definition GetSSHKey ::
  "('req, 'v, 'f) UsersService \<Rightarrow> int \<Rightarrow> 'f list
   \<Rightarrow> ('req, 'f) log \<Rightarrow> 'v entity_result \<times> ('req, 'f) log" where
  "GetSSHKey s key options log =
     (let u = ''user/keys/'' @ fmt_d key in
      case client_NewRequest (UsersService.client s) ''GET'' u NilOpt options log of
        (Inl err, log) \<Rightarrow> ((None, None, Some err), log)
      | (Inr req, log) \<Rightarrow>
          (case client_Do (UsersService.client s) req (new (Named ''SSHKey'')) log of
             ((k, resp, err), log) \<Rightarrow>
               if err \<noteq> None then ((None, resp, err), log)
               else ((Some k, resp, err), log)))"

definition AddSSHKey ::
  "('req, 'v, 'f) UsersService \<Rightarrow> AddSSHKeyOptions option \<Rightarrow> 'f list
   \<Rightarrow> ('req, 'f) log \<Rightarrow> 'v entity_result \<times> ('req, 'f) log" where
  "AddSSHKey s opt options log =
     (case client_NewRequest (UsersService.client s) ''POST'' ''user/keys'' (AddSSHKeyOpt opt) options log of
        (Inl err, log) \<Rightarrow> ((None, None, Some err), log)
      | (Inr req, log) \<Rightarrow>
          (case client_Do (UsersService.client s) req (new (Named ''SSHKey'')) log of
             ((k, resp, err), log) \<Rightarrow>
               if err \<noteq> None then ((None, resp, err), log)
               else ((Some k, resp, err), log)))"

definition AddSSHKeyForUser ::
  "('req, 'v, 'f) UsersService \<Rightarrow> int \<Rightarrow> AddSSHKeyOptions option \<Rightarrow> 'f list
   \<Rightarrow> ('req, 'f) log \<Rightarrow> 'v entity_result \<times> ('req, 'f) log" where
  "AddSSHKeyForUser s user opt options log =
     (let u = ''users/'' @ fmt_d user @ ''/keys'' in
      case client_NewRequest (UsersService.client s) ''POST'' u (AddSSHKeyOpt opt) options log of
        (Inl err, log) \<Rightarrow> ((None, None, Some err), log)
      | (Inr req, log) \<Rightarrow>
          (case client_Do (UsersService.client s) req (new (Named ''SSHKey'')) log of
             ((k, resp, err), log) \<Rightarrow>
               if err \<noteq> None then ((None, resp, err), log)
               else ((Some k, resp, err), log)))"

definition DeleteSSHKey ::
  "('req, 'v, 'f) UsersService \<Rightarrow> int \<Rightarrow> 'f list
   \<Rightarrow> ('req, 'f) log \<Rightarrow> response_result \<times> ('req, 'f) log" where
  "DeleteSSHKey s key options log =
     (let u = ''user/keys/'' @ fmt_d key in
      case client_NewRequest (UsersService.client s) ''DELETE'' u NilOpt options log of
        (Inl err, log) \<Rightarrow> ((None, Some err), log)
      | (Inr req, log) \<Rightarrow>
          (case client_Do (UsersService.client s) req GoNil log of
             ((v, resp, err), log) \<Rightarrow> ((resp, err), log)))"

definition DeleteSSHKeyForUser ::
  "('req, 'v, 'f) UsersService \<Rightarrow> int \<Rightarrow> int \<Rightarrow> 'f list
   \<Rightarrow> ('req, 'f) log \<Rightarrow> response_result \<times> ('req, 'f) log" where
  "DeleteSSHKeyForUser s user key options log =
     (let u = ''users/'' @ fmt_d user @ ''/keys/'' @ fmt_d key in
      case client_NewRequest (UsersService.client s) ''DELETE'' u NilOpt options log of
        (Inl err, log) \<Rightarrow> ((None, Some err), log)
      | (Inr req, log) \<Rightarrow>
          (case client_Do (UsersService.client s) req GoNil log of
             ((v, resp, err), log) \<Rightarrow> ((resp, err), log)))"

definition BlockUser ::
  "('req, 'v, 'f) UsersService \<Rightarrow> int \<Rightarrow> 'f list
   \<Rightarrow> ('req, 'f) log \<Rightarrow> error option outcome \<times> ('req, 'f) log" where
  "BlockUser s user options log =
     (let u = ''users/'' @ fmt_d user @ ''/block'' in
      case client_NewRequest (UsersService.client s) ''POST'' u NilOpt options log of
        (Inl err, log) \<Rightarrow> (Returns (Some err), log)
      | (Inr req, log) \<Rightarrow>
          (case client_Do (UsersService.client s) req GoNil log of
             ((v, resp, err), log) \<Rightarrow>
               if err \<noteq> None then (Returns err, log)
               else (case resp of
                       None \<Rightarrow> (NilDereference, log)
                     | Some r \<Rightarrow>
                         if StatusCode r = 201 then (Returns None, log)
                         else if StatusCode r = 403 then
                           (Returns (Some (errors_New ''Cannot block a user that is already blocked by LDAP synchronization'')), log)
                         else if StatusCode r = 404 then
                           (Returns (Some (errors_New ''User does not exist'')), log)
                         else
                           (Returns (Some (errors_New
                              (''Received unexpected result code: '' @ fmt_d (StatusCode r)))), log))))"

definition UnblockUser ::
  "('req, 'v, 'f) UsersService \<Rightarrow> int \<Rightarrow> 'f list
   \<Rightarrow> ('req, 'f) log \<Rightarrow> error option outcome \<times> ('req, 'f) log" where
  "UnblockUser s user options log =
     (let u = ''users/'' @ fmt_d user @ ''/unblock'' in
      case client_NewRequest (UsersService.client s) ''POST'' u NilOpt options log of
        (Inl err, log) \<Rightarrow> (Returns (Some err), log)
      | (Inr req, log) \<Rightarrow>
          (case client_Do (UsersService.client s) req GoNil log of
             ((v, resp, err), log) \<Rightarrow>
               if err \<noteq> None then (Returns err, log)
               else (case resp of
                       None \<Rightarrow> (NilDereference, log)
                     | Some r \<Rightarrow>
                         if StatusCode r = 201 then (Returns None, log)
                         else if StatusCode r = 403 then
                           (Returns (Some (errors_New ''Cannot unblock a user that is blocked by LDAP synchronization'')), log)
                         else if StatusCode r = 404 then
                           (Returns (Some (errors_New ''User does not exist'')), log)
                         else
                           (Returns (Some (errors_New
                              (''Received unexpected result code: '' @ fmt_d (StatusCode r)))), log))))"

definition ListEmails ::
  "('req, 'v, 'f) UsersService \<Rightarrow> 'f list
   \<Rightarrow> ('req, 'f) log \<Rightarrow> 'v entity_result \<times> ('req, 'f) log" where
  "ListEmails s options log =
     (case client_NewRequest (UsersService.client s) ''GET'' ''user/emails'' NilOpt options log of
        (Inl err, log) \<Rightarrow> ((None, None, Some err), log)
      | (Inr req, log) \<Rightarrow>
          (case client_Do (UsersService.client s) req (AddrOf (Zero (SliceOf (PtrTo (Named ''Email''))))) log of
             ((e, resp, err), log) \<Rightarrow>
               if err \<noteq> None then ((None, resp, err), log)
               else ((Some e, resp, err), log)))"

definition ListEmailsForUser ::
  "('req, 'v, 'f) UsersService \<Rightarrow> int \<Rightarrow> ListEmailsForUserOptions option \<Rightarrow> 'f list
   \<Rightarrow> ('req, 'f) log \<Rightarrow> 'v entity_result \<times> ('req, 'f) log" where
  "ListEmailsForUser s user opt options log =
     (let u = ''users/'' @ fmt_d user @ ''/emails'' in
      case client_NewRequest (UsersService.client s) ''GET'' u (ListEmailsForUserOpt opt) options log of
        (Inl err, log) \<Rightarrow> ((None, None, Some err), log)
      | (Inr req, log) \<Rightarrow>
          (case client_Do (UsersService.client s) req (AddrOf (Zero (SliceOf (PtrTo (Named ''Email''))))) log of
             ((e, resp, err), log) \<Rightarrow>
               if err \<noteq> None then ((None, resp, err), log)
               else ((Some e, resp, err), log)))"

definition GetEmail ::
  "('req, 'v, 'f) UsersService \<Rightarrow> int \<Rightarrow> 'f list
   \<Rightarrow> ('req, 'f) log \<Rightarrow> 'v entity_result \<times> ('req, 'f) log" where
  "GetEmail s email options log =
     (let u = ''user/emails/'' @ fmt_d email in
      case client_NewRequest (UsersService.client s) ''GET'' u NilOpt options log of
        (Inl err, log) \<Rightarrow> ((None, None, Some err), log)
      | (Inr req, log) \<Rightarrow>
          (case client_Do (UsersService.client s) req (new (Named ''Email'')) log of
             ((e, resp, err), log) \<Rightarrow>
               if err \<noteq> None then ((None, resp, err), log)
               else ((Some e, resp, err), log)))"

definition AddEmail ::
  "('req, 'v, 'f) UsersService \<Rightarrow> AddEmailOptions option \<Rightarrow> 'f list
   \<Rightarrow> ('req, 'f) log \<Rightarrow> 'v entity_result \<times> ('req, 'f) log" where
  "AddEmail s opt options log =
     (case client_NewRequest (UsersService.client s) ''POST'' ''user/emails'' (AddEmailOpt opt) options log of
        (Inl err, log) \<Rightarrow> ((None, None, Some err), log)
      | (Inr req, log) \<Rightarrow>
          (case client_Do (UsersService.client s) req (new (Named ''Email'')) log of
             ((e, resp, err), log) \<Rightarrow>
               if err \<noteq> None then ((None, resp, err), log)
               else ((Some e, resp, err), log)))"

definition AddEmailForUser ::
  "('req, 'v, 'f) UsersService \<Rightarrow> int \<Rightarrow> AddEmailOptions option \<Rightarrow> 'f list
   \<Rightarrow> ('req, 'f) log \<Rightarrow> 'v entity_result \<times> ('req, 'f) log" where
  "AddEmailForUser s user opt options log =
     (let u = ''users/'' @ fmt_d user @ ''/emails'' in
      case client_NewRequest (UsersService.client s) ''POST'' u (AddEmailOpt opt) options log of
        (Inl err, log) \<Rightarrow> ((None, None, Some err), log)
      | (Inr req, log) \<Rightarrow>
          (case client_Do (UsersService.client s) req (new (Named ''Email'')) log of
             ((e, resp, err), log) \<Rightarrow>
               if err \<noteq> None then ((None, resp, err), log)
               else ((Some e, resp, err), log)))"

definition DeleteEmail ::
  "('req, 'v, 'f) UsersService \<Rightarrow> int \<Rightarrow> 'f list
   \<Rightarrow> ('req, 'f) log \<Rightarrow> response_result \<times> ('req, 'f) log" where
  "DeleteEmail s email options log =
     (let u = ''user/emails/'' @ fmt_d email in
      case client_NewRequest (UsersService.client s) ''DELETE'' u NilOpt options log of
        (Inl err, log) \<Rightarrow> ((None, Some err), log)
      | (Inr req, log) \<Rightarrow>
          (case client_Do (UsersService.client s) req GoNil log of
             ((v, resp, err), log) \<Rightarrow> ((resp, err), log)))"

definition DeleteEmailForUser ::
  "('req, 'v, 'f) UsersService \<Rightarrow> int \<Rightarrow> int \<Rightarrow> 'f list
   \<Rightarrow> ('req, 'f) log \<Rightarrow> response_result \<times> ('req, 'f) log" where
  "DeleteEmailForUser s user email options log =
     (let u = ''users/'' @ fmt_d user @ ''/emails/'' @ fmt_d email in
      case client_NewRequest (UsersService.client s) ''DELETE'' u NilOpt options log of
        (Inl err, log) \<Rightarrow> ((None, Some err), log)
      | (Inr req, log) \<Rightarrow>
          (case client_Do (UsersService.client s) req GoNil log of
             ((v, resp, err), log) \<Rightarrow> ((resp, err), log)))"

definition GetAllImpersonationTokens ::
  "('req, 'v, 'f) UsersService \<Rightarrow> int \<Rightarrow> GetAllImpersonationTokensOptions option \<Rightarrow> 'f list
   \<Rightarrow> ('req, 'f) log \<Rightarrow> 'v entity_result \<times> ('req, 'f) log" where
  "GetAllImpersonationTokens s user opt options log =
     (let u = ''users/'' @ fmt_d user @ ''/impersonation_tokens'' in
      case client_NewRequest (UsersService.client s) ''GET'' u (GetAllImpersonationTokensOpt opt) options log of
        (Inl err, log) \<Rightarrow> ((None, None, Some err), log)
      | (Inr req, log) \<Rightarrow>
          (case client_Do (UsersService.client s) req (AddrOf (Zero (SliceOf (PtrTo (Named ''ImpersonationToken''))))) log of
             ((ts, resp, err), log) \<Rightarrow>
               if err \<noteq> None then ((None, resp, err), log)
               else ((Some ts, resp, err), log)))"

definition GetImpersonationToken ::
  "('req, 'v, 'f) UsersService \<Rightarrow> int \<Rightarrow> int \<Rightarrow> 'f list
   \<Rightarrow> ('req, 'f) log \<Rightarrow> 'v entity_result \<times> ('req, 'f) log" where
  "GetImpersonationToken s user token options log =
     (let u = ''users/'' @ fmt_d user @ ''/impersonation_tokens/'' @ fmt_d token in
      case client_NewRequest (UsersService.client s) ''GET'' u NilOpt options log of
        (Inl err, log) \<Rightarrow> ((None, None, Some err), log)
      | (Inr req, log) \<Rightarrow>
          (case client_Do (UsersService.client s) req (AddrOf (new (Named ''ImpersonationToken''))) log of
             ((t, resp, err), log) \<Rightarrow>
               if err \<noteq> None then ((None, resp, err), log)
               else ((Some t, resp, err), log)))"

definition CreateImpersonationToken ::
  "('req, 'v, 'f) UsersService \<Rightarrow> int \<Rightarrow> CreateImpersonationTokenOptions option \<Rightarrow> 'f list
   \<Rightarrow> ('req, 'f) log \<Rightarrow> 'v entity_result \<times> ('req, 'f) log" where
  "CreateImpersonationToken s user opt options log =
     (let u = ''users/'' @ fmt_d user @ ''/impersonation_tokens'' in
      case client_NewRequest (UsersService.client s) ''POST'' u (CreateImpersonationTokenOpt opt) options log of
        (Inl err, log) \<Rightarrow> ((None, None, Some err), log)
      | (Inr req, log) \<Rightarrow>
          (case client_Do (UsersService.client s) req (AddrOf (new (Named ''ImpersonationToken''))) log of
             ((t, resp, err), log) \<Rightarrow>
               if err \<noteq> None then ((None, resp, err), log)
               else ((Some t, resp, err), log)))"

definition RevokeImpersonationToken ::
  "('req, 'v, 'f) UsersService \<Rightarrow> int \<Rightarrow> int \<Rightarrow> 'f list
   \<Rightarrow> ('req, 'f) log \<Rightarrow> response_result \<times> ('req, 'f) log" where
  "RevokeImpersonationToken s user token options log =
     (let u = ''users/'' @ fmt_d user @ ''/impersonation_tokens/'' @ fmt_d token in
      case client_NewRequest (UsersService.client s) ''DELETE'' u NilOpt options log of
        (Inl err, log) \<Rightarrow> ((None, Some err), log)
      | (Inr req, log) \<Rightarrow>
          (case client_Do (UsersService.client s) req GoNil log of
             ((v, resp, err), log) \<Rightarrow> ((resp, err), log)))"

definition GetUserActivities ::
  "('req, 'v, 'f) UsersService \<Rightarrow> GetUserActivitiesOptions option \<Rightarrow> 'f list
   \<Rightarrow> ('req, 'f) log \<Rightarrow> 'v entity_result \<times> ('req, 'f) log" where
  "GetUserActivities s opt options log =
     (case client_NewRequest (UsersService.client s) ''GET'' ''user/activities'' (GetUserActivitiesOpt opt) options log of
        (Inl err, log) \<Rightarrow> ((None, None, Some err), log)
      | (Inr req, log) \<Rightarrow>
          (case client_Do (UsersService.client s) req (AddrOf (Zero (SliceOf (PtrTo (Named ''UserActivity''))))) log of
             ((t, resp, err), log) \<Rightarrow>
               if err \<noteq> None then ((None, resp, err), log)
               else ((Some t, resp, err), log)))"

definition CurrentUserStatus ::
  "('req, 'v, 'f) UsersService \<Rightarrow> 'f list
   \<Rightarrow> ('req, 'f) log \<Rightarrow> 'v entity_result \<times> ('req, 'f) log" where
  "CurrentUserStatus s options log =
     (case client_NewRequest (UsersService.client s) ''GET'' ''user/status'' NilOpt options log of
        (Inl err, log) \<Rightarrow> ((None, None, Some err), log)
      | (Inr req, log) \<Rightarrow>
          (case client_Do (UsersService.client s) req (new (Named ''UserStatus'')) log of
             ((status, resp, err), log) \<Rightarrow>
               if err \<noteq> None then ((None, resp, err), log)
               else ((Some status, resp, err), log)))"

definition GetUserStatus ::
  "('req, 'v, 'f) UsersService \<Rightarrow> int \<Rightarrow> 'f list
   \<Rightarrow> ('req, 'f) log \<Rightarrow> 'v entity_result \<times> ('req, 'f) log" where
  "GetUserStatus s user options log =
     (let u = ''users/'' @ fmt_d user @ ''/status'' in
      case client_NewRequest (UsersService.client s) ''GET'' u NilOpt options log of
        (Inl err, log) \<Rightarrow> ((None, None, Some err), log)
      | (Inr req, log) \<Rightarrow>
          (case client_Do (UsersService.client s) req (new (Named ''UserStatus'')) log of
             ((status, resp, err), log) \<Rightarrow>
               if err \<noteq> None then ((None, resp, err), log)
               else ((Some status, resp, err), log)))"

definition SetUserStatus ::
  "('req, 'v, 'f) UsersService \<Rightarrow> UserStatusOptions option \<Rightarrow> 'f list
   \<Rightarrow> ('req, 'f) log \<Rightarrow> 'v entity_result \<times> ('req, 'f) log" where
  "SetUserStatus s opt options log =
     (case client_NewRequest (UsersService.client s) ''PUT'' ''user/status'' (UserStatusOpt opt) options log of
        (Inl err, log) \<Rightarrow> ((None, None, Some err), log)
      | (Inr req, log) \<Rightarrow>
          (case client_Do (UsersService.client s) req (new (Named ''UserStatus'')) log of
             ((status, resp, err), log) \<Rightarrow>
               if err \<noteq> None then ((None, resp, err), log)
               else ((Some status, resp, err), log)))"

section \<open>The operations as a table\<close>

text \<open>
  A call of a service method with its arguments, so that a statement about every method
  is one statement. \<open>commits_invoke\<close> and \<open>users_invoke\<close> run the method that a call
  names. The tables after them name, for each call, the arguments that the method gives to
  \<open>NewRequest\<close> and the second argument that it gives to \<open>Do\<close>: they say which call of
  the client a statement is about, and they are read off the methods, not off any
  documentation.
\<close>

datatype 'pid commits_call =
    ListCommitsCall 'pid "ListCommitsOptions option"
  | GetCommitRefsCall 'pid string "GetCommitRefsOptions option"
  | GetCommitCall 'pid string
  | CreateCommitCall 'pid "CreateCommitOptions option"
  | GetCommitDiffCall 'pid string "GetCommitDiffOptions option"
  | GetCommitCommentsCall 'pid string "GetCommitCommentsOptions option"
  | PostCommitCommentCall 'pid string "PostCommitCommentOptions option"
  | GetCommitStatusesCall 'pid string "GetCommitStatusesOptions option"
  | SetCommitStatusCall 'pid string "SetCommitStatusOptions option"
  | GetMergeRequestsByCommitCall 'pid string
  | CherryPickCommitCall 'pid string "CherryPickCommitOptions option"

fun commits_invoke ::
  "('pid \<Rightarrow> error + string) \<Rightarrow> ('req, 'v, 'f) CommitsService \<Rightarrow> 'pid commits_call \<Rightarrow> 'f list
   \<Rightarrow> ('req, 'f) log \<Rightarrow> 'v entity_result \<times> ('req, 'f) log" where
  "commits_invoke parseID s (ListCommitsCall pid opt) options log =
     ListCommits parseID s pid opt options log"
| "commits_invoke parseID s (GetCommitRefsCall pid sha opt) options log =
     GetCommitRefs parseID s pid sha opt options log"
| "commits_invoke parseID s (GetCommitCall pid sha) options log =
     GetCommit parseID s pid sha options log"
| "commits_invoke parseID s (CreateCommitCall pid opt) options log =
     CreateCommit parseID s pid opt options log"
| "commits_invoke parseID s (GetCommitDiffCall pid sha opt) options log =
     GetCommitDiff parseID s pid sha opt options log"
| "commits_invoke parseID s (GetCommitCommentsCall pid sha opt) options log =
     GetCommitComments parseID s pid sha opt options log"
| "commits_invoke parseID s (PostCommitCommentCall pid sha opt) options log =
     PostCommitComment parseID s pid sha opt options log"
| "commits_invoke parseID s (GetCommitStatusesCall pid sha opt) options log =
     GetCommitStatuses parseID s pid sha opt options log"
| "commits_invoke parseID s (SetCommitStatusCall pid sha opt) options log =
     SetCommitStatus parseID s pid sha opt options log"
| "commits_invoke parseID s (GetMergeRequestsByCommitCall pid sha) options log =
     GetMergeRequestsByCommit parseID s pid sha options log"
| "commits_invoke parseID s (CherryPickCommitCall pid sha opt) options log =
     CherryPickCommit parseID s pid sha opt options log"

fun call_pid :: "'pid commits_call \<Rightarrow> 'pid" where
  "call_pid (ListCommitsCall pid opt) = pid"
| "call_pid (GetCommitRefsCall pid sha opt) = pid"
| "call_pid (GetCommitCall pid sha) = pid"
| "call_pid (CreateCommitCall pid opt) = pid"
| "call_pid (GetCommitDiffCall pid sha opt) = pid"
| "call_pid (GetCommitCommentsCall pid sha opt) = pid"
| "call_pid (PostCommitCommentCall pid sha opt) = pid"
| "call_pid (GetCommitStatusesCall pid sha opt) = pid"
| "call_pid (SetCommitStatusCall pid sha opt) = pid"
| "call_pid (GetMergeRequestsByCommitCall pid sha) = pid"
| "call_pid (CherryPickCommitCall pid sha opt) = pid"

fun commits_request :: "string \<Rightarrow> 'pid commits_call \<Rightarrow> string \<times> string \<times> opt" where
  "commits_request project (ListCommitsCall pid opt) =
     (''GET'', ''projects/'' @ url_QueryEscape project @ ''/repository/commits'',
      ListCommitsOpt opt)"
| "commits_request project (GetCommitRefsCall pid sha opt) =
     (''GET'', ''projects/'' @ url_QueryEscape project @ ''/repository/commits/'' @ sha @ ''/refs'',
      GetCommitRefsOpt opt)"
| "commits_request project (GetCommitCall pid sha) =
     (''GET'', ''projects/'' @ url_QueryEscape project @ ''/repository/commits/'' @ sha,
      NilOpt)"
| "commits_request project (CreateCommitCall pid opt) =
     (''POST'', ''projects/'' @ url_QueryEscape project @ ''/repository/commits'',
      CreateCommitOpt opt)"
| "commits_request project (GetCommitDiffCall pid sha opt) =
     (''GET'', ''projects/'' @ url_QueryEscape project @ ''/repository/commits/'' @ sha @ ''/diff'',
      GetCommitDiffOpt opt)"
| "commits_request project (GetCommitCommentsCall pid sha opt) =
     (''GET'', ''projects/'' @ url_QueryEscape project @ ''/repository/commits/'' @ sha @ ''/comments'',
      GetCommitCommentsOpt opt)"
| "commits_request project (PostCommitCommentCall pid sha opt) =
     (''POST'', ''projects/'' @ url_QueryEscape project @ ''/repository/commits/'' @ sha @ ''/comments'',
      PostCommitCommentOpt opt)"
| "commits_request project (GetCommitStatusesCall pid sha opt) =
     (''GET'', ''projects/'' @ url_QueryEscape project @ ''/repository/commits/'' @ sha @ ''/statuses'',
      GetCommitStatusesOpt opt)"
| "commits_request project (SetCommitStatusCall pid sha opt) =
     (''POST'', ''projects/'' @ url_QueryEscape project @ ''/statuses/'' @ sha,
      SetCommitStatusOpt opt)"
| "commits_request project (GetMergeRequestsByCommitCall pid sha) =
     (''GET'', ''projects/'' @ url_QueryEscape project @ ''/repository/commits/'' @ url_QueryEscape sha @ ''/merge_requests'',
      NilOpt)"
| "commits_request project (CherryPickCommitCall pid sha opt) =
     (''POST'', ''projects/'' @ url_QueryEscape project @ ''/repository/commits/'' @ url_QueryEscape sha @ ''/cherry_pick'',
      CherryPickCommitOpt opt)"

fun commits_target :: "'pid commits_call \<Rightarrow> govalue" where
  "commits_target (ListCommitsCall pid opt) = AddrOf (Zero (SliceOf (PtrTo (Named ''Commit''))))"
| "commits_target (GetCommitRefsCall pid sha opt) = AddrOf (Zero (SliceOf (Named ''CommitRef'')))"
| "commits_target (GetCommitCall pid sha) = new (Named ''Commit'')"
| "commits_target (CreateCommitCall pid opt) = AddrOf (Zero (PtrTo (Named ''Commit'')))"
| "commits_target (GetCommitDiffCall pid sha opt) = AddrOf (Zero (SliceOf (PtrTo (Named ''Diff''))))"
| "commits_target (GetCommitCommentsCall pid sha opt) = AddrOf (Zero (SliceOf (PtrTo (Named ''CommitComment''))))"
| "commits_target (PostCommitCommentCall pid sha opt) = new (Named ''CommitComment'')"
| "commits_target (GetCommitStatusesCall pid sha opt) = AddrOf (Zero (SliceOf (PtrTo (Named ''CommitStatus''))))"
| "commits_target (SetCommitStatusCall pid sha opt) = AddrOf (Zero (PtrTo (Named ''CommitStatus'')))"
| "commits_target (GetMergeRequestsByCommitCall pid sha) = AddrOf (Zero (SliceOf (PtrTo (Named ''MergeRequest''))))"
| "commits_target (CherryPickCommitCall pid sha opt) = AddrOf (Zero (PtrTo (Named ''Commit'')))"

datatype users_call =
    ListUsersCall "ListUsersOptions option"
  | GetUserCall int
  | CreateUserCall "CreateUserOptions option"
  | ModifyUserCall int "ModifyUserOptions option"
  | DeleteUserCall int
  | CurrentUserCall
  | ListSSHKeysCall
  | ListSSHKeysForUserCall int "ListSSHKeysForUserOptions option"
  | GetSSHKeyCall int
  | AddSSHKeyCall "AddSSHKeyOptions option"
  | AddSSHKeyForUserCall int "AddSSHKeyOptions option"
  | DeleteSSHKeyCall int
  | DeleteSSHKeyForUserCall int int
  | BlockUserCall int
  | UnblockUserCall int
  | ListEmailsCall
  | ListEmailsForUserCall int "ListEmailsForUserOptions option"
  | GetEmailCall int
  | AddEmailCall "AddEmailOptions option"
  | AddEmailForUserCall int "AddEmailOptions option"
  | DeleteEmailCall int
  | DeleteEmailForUserCall int int
  | GetAllImpersonationTokensCall int "GetAllImpersonationTokensOptions option"
  | GetImpersonationTokenCall int int
  | CreateImpersonationTokenCall int "CreateImpersonationTokenOptions option"
  | RevokeImpersonationTokenCall int int
  | GetUserActivitiesCall "GetUserActivitiesOptions option"
  | CurrentUserStatusCall
  | GetUserStatusCall int
  | SetUserStatusCall "UserStatusOptions option"

datatype 'v result =
    Entity "'v entity_result"
  | Resp response_result
  | Err "error option outcome"

fun users_invoke ::
  "('req, 'v, 'f) UsersService \<Rightarrow> users_call \<Rightarrow> 'f list
   \<Rightarrow> ('req, 'f) log \<Rightarrow> 'v result \<times> ('req, 'f) log" where
  "users_invoke s (ListUsersCall opt) options log =
     apfst Entity (ListUsers s opt options log)"
| "users_invoke s (GetUserCall user) options log =
     apfst Entity (GetUser s user options log)"
| "users_invoke s (CreateUserCall opt) options log =
     apfst Entity (CreateUser s opt options log)"
| "users_invoke s (ModifyUserCall user opt) options log =
     apfst Entity (ModifyUser s user opt options log)"
| "users_invoke s (DeleteUserCall user) options log =
     apfst Resp (DeleteUser s user options log)"
| "users_invoke s CurrentUserCall options log =
     apfst Entity (CurrentUser s options log)"
| "users_invoke s ListSSHKeysCall options log =
     apfst Entity (ListSSHKeys s options log)"
| "users_invoke s (ListSSHKeysForUserCall user opt) options log =
     apfst Entity (ListSSHKeysForUser s user opt options log)"
| "users_invoke s (GetSSHKeyCall key) options log =
     apfst Entity (GetSSHKey s key options log)"
| "users_invoke s (AddSSHKeyCall opt) options log =
     apfst Entity (AddSSHKey s opt options log)"
| "users_invoke s (AddSSHKeyForUserCall user opt) options log =
     apfst Entity (AddSSHKeyForUser s user opt options log)"
| "users_invoke s (DeleteSSHKeyCall key) options log =
     apfst Resp (DeleteSSHKey s key options log)"
| "users_invoke s (DeleteSSHKeyForUserCall user key) options log =
     apfst Resp (DeleteSSHKeyForUser s user key options log)"
| "users_invoke s (BlockUserCall user) options log =
     apfst Err (BlockUser s user options log)"
| "users_invoke s (UnblockUserCall user) options log =
     apfst Err (UnblockUser s user options log)"
| "users_invoke s ListEmailsCall options log =
     apfst Entity (ListEmails s options log)"
| "users_invoke s (ListEmailsForUserCall user opt) options log =
     apfst Entity (ListEmailsForUser s user opt options log)"
| "users_invoke s (GetEmailCall email) options log =
     apfst Entity (GetEmail s email options log)"
| "users_invoke s (AddEmailCall opt) options log =
     apfst Entity (AddEmail s opt options log)"
| "users_invoke s (AddEmailForUserCall user opt) options log =
     apfst Entity (AddEmailForUser s user opt options log)"
| "users_invoke s (DeleteEmailCall email) options log =
     apfst Resp (DeleteEmail s email options log)"
| "users_invoke s (DeleteEmailForUserCall user email) options log =
     apfst Resp (DeleteEmailForUser s user email options log)"
| "users_invoke s (GetAllImpersonationTokensCall user opt) options log =
     apfst Entity (GetAllImpersonationTokens s user opt options log)"
| "users_invoke s (GetImpersonationTokenCall user token) options log =
     apfst Entity (GetImpersonationToken s user token options log)"
| "users_invoke s (CreateImpersonationTokenCall user opt) options log =
     apfst Entity (CreateImpersonationToken s user opt options log)"
| "users_invoke s (RevokeImpersonationTokenCall user token) options log =
     apfst Resp (RevokeImpersonationToken s user token options log)"
| "users_invoke s (GetUserActivitiesCall opt) options log =
     apfst Entity (GetUserActivities s opt options log)"
| "users_invoke s CurrentUserStatusCall options log =
     apfst Entity (CurrentUserStatus s options log)"
| "users_invoke s (GetUserStatusCall user) options log =
     apfst Entity (GetUserStatus s user options log)"
| "users_invoke s (SetUserStatusCall opt) options log =
     apfst Entity (SetUserStatus s opt options log)"

fun users_request :: "users_call \<Rightarrow> string \<times> string \<times> opt" where
  "users_request (ListUsersCall opt) =
     (''GET'', ''users'', ListUsersOpt opt)"
| "users_request (GetUserCall user) =
     (''GET'', ''users/'' @ fmt_d user, NilOpt)"
| "users_request (CreateUserCall opt) =
     (''POST'', ''users'', CreateUserOpt opt)"
| "users_request (ModifyUserCall user opt) =
     (''PUT'', ''users/'' @ fmt_d user, ModifyUserOpt opt)"
| "users_request (DeleteUserCall user) =
     (''DELETE'', ''users/'' @ fmt_d user, NilOpt)"
| "users_request CurrentUserCall =
     (''GET'', ''user'', NilOpt)"
| "users_request ListSSHKeysCall =
     (''GET'', ''user/keys'', NilOpt)"
| "users_request (ListSSHKeysForUserCall user opt) =
     (''GET'', ''users/'' @ fmt_d user @ ''/keys'', ListSSHKeysForUserOpt opt)"
| "users_request (GetSSHKeyCall key) =
     (''GET'', ''user/keys/'' @ fmt_d key, NilOpt)"
| "users_request (AddSSHKeyCall opt) =
     (''POST'', ''user/keys'', AddSSHKeyOpt opt)"
| "users_request (AddSSHKeyForUserCall user opt) =
     (''POST'', ''users/'' @ fmt_d user @ ''/keys'', AddSSHKeyOpt opt)"
| "users_request (DeleteSSHKeyCall key) =
     (''DELETE'', ''user/keys/'' @ fmt_d key, NilOpt)"
| "users_request (DeleteSSHKeyForUserCall user key) =
     (''DELETE'', ''users/'' @ fmt_d user @ ''/keys/'' @ fmt_d key, NilOpt)"
| "users_request (BlockUserCall user) =
     (''POST'', ''users/'' @ fmt_d user @ ''/block'', NilOpt)"
| "users_request (UnblockUserCall user) =
     (''POST'', ''users/'' @ fmt_d user @ ''/unblock'', NilOpt)"
| "users_request ListEmailsCall =
     (''GET'', ''user/emails'', NilOpt)"
| "users_request (ListEmailsForUserCall user opt) =
     (''GET'', ''users/'' @ fmt_d user @ ''/emails'', ListEmailsForUserOpt opt)"
| "users_request (GetEmailCall email) =
     (''GET'', ''user/emails/'' @ fmt_d email, NilOpt)"
| "users_request (AddEmailCall opt) =
     (''POST'', ''user/emails'', AddEmailOpt opt)"
| "users_request (AddEmailForUserCall user opt) =
     (''POST'', ''users/'' @ fmt_d user @ ''/emails'', AddEmailOpt opt)"
| "users_request (DeleteEmailCall email) =
     (''DELETE'', ''user/emails/'' @ fmt_d email, NilOpt)"
| "users_request (DeleteEmailForUserCall user email) =
     (''DELETE'', ''users/'' @ fmt_d user @ ''/emails/'' @ fmt_d email, NilOpt)"
| "users_request (GetAllImpersonationTokensCall user opt) =
     (''GET'', ''users/'' @ fmt_d user @ ''/impersonation_tokens'', GetAllImpersonationTokensOpt opt)"
| "users_request (GetImpersonationTokenCall user token) =
     (''GET'', ''users/'' @ fmt_d user @ ''/impersonation_tokens/'' @ fmt_d token, NilOpt)"
| "users_request (CreateImpersonationTokenCall user opt) =
     (''POST'', ''users/'' @ fmt_d user @ ''/impersonation_tokens'', CreateImpersonationTokenOpt opt)"
| "users_request (RevokeImpersonationTokenCall user token) =
     (''DELETE'', ''users/'' @ fmt_d user @ ''/impersonation_tokens/'' @ fmt_d token, NilOpt)"
| "users_request (GetUserActivitiesCall opt) =
     (''GET'', ''user/activities'', GetUserActivitiesOpt opt)"
| "users_request CurrentUserStatusCall =
     (''GET'', ''user/status'', NilOpt)"
| "users_request (GetUserStatusCall user) =
     (''GET'', ''users/'' @ fmt_d user @ ''/status'', NilOpt)"
| "users_request (SetUserStatusCall opt) =
     (''PUT'', ''user/status'', UserStatusOpt opt)"

fun users_target :: "users_call \<Rightarrow> govalue" where
  "users_target (ListUsersCall opt) = AddrOf (Zero (SliceOf (PtrTo (Named ''User''))))"
| "users_target (GetUserCall user) = new (Named ''User'')"
| "users_target (CreateUserCall opt) = new (Named ''User'')"
| "users_target (ModifyUserCall user opt) = new (Named ''User'')"
| "users_target (DeleteUserCall user) = GoNil"
| "users_target CurrentUserCall = new (Named ''User'')"
| "users_target ListSSHKeysCall = AddrOf (Zero (SliceOf (PtrTo (Named ''SSHKey''))))"
| "users_target (ListSSHKeysForUserCall user opt) = AddrOf (Zero (SliceOf (PtrTo (Named ''SSHKey''))))"
| "users_target (GetSSHKeyCall key) = new (Named ''SSHKey'')"
| "users_target (AddSSHKeyCall opt) = new (Named ''SSHKey'')"
| "users_target (AddSSHKeyForUserCall user opt) = new (Named ''SSHKey'')"
| "users_target (DeleteSSHKeyCall key) = GoNil"
| "users_target (DeleteSSHKeyForUserCall user key) = GoNil"
| "users_target (BlockUserCall user) = GoNil"
| "users_target (UnblockUserCall user) = GoNil"
| "users_target ListEmailsCall = AddrOf (Zero (SliceOf (PtrTo (Named ''Email''))))"
| "users_target (ListEmailsForUserCall user opt) = AddrOf (Zero (SliceOf (PtrTo (Named ''Email''))))"
| "users_target (GetEmailCall email) = new (Named ''Email'')"
| "users_target (AddEmailCall opt) = new (Named ''Email'')"
| "users_target (AddEmailForUserCall user opt) = new (Named ''Email'')"
| "users_target (DeleteEmailCall email) = GoNil"
| "users_target (DeleteEmailForUserCall user email) = GoNil"
| "users_target (GetAllImpersonationTokensCall user opt) = AddrOf (Zero (SliceOf (PtrTo (Named ''ImpersonationToken''))))"
| "users_target (GetImpersonationTokenCall user token) = AddrOf (new (Named ''ImpersonationToken''))"
| "users_target (CreateImpersonationTokenCall user opt) = AddrOf (new (Named ''ImpersonationToken''))"
| "users_target (RevokeImpersonationTokenCall user token) = GoNil"
| "users_target (GetUserActivitiesCall opt) = AddrOf (Zero (SliceOf (PtrTo (Named ''UserActivity''))))"
| "users_target CurrentUserStatusCall = new (Named ''UserStatus'')"
| "users_target (GetUserStatusCall user) = new (Named ''UserStatus'')"
| "users_target (SetUserStatusCall opt) = new (Named ''UserStatus'')"

text \<open>The methods with the results \<open>(entity, *Response, error)\<close>.\<close>

fun entity_returning :: "users_call \<Rightarrow> bool" where
  "entity_returning (ListUsersCall opt) = True"
| "entity_returning (GetUserCall user) = True"
| "entity_returning (CreateUserCall opt) = True"
| "entity_returning (ModifyUserCall user opt) = True"
| "entity_returning (DeleteUserCall user) = False"
| "entity_returning CurrentUserCall = True"
| "entity_returning ListSSHKeysCall = True"
| "entity_returning (ListSSHKeysForUserCall user opt) = True"
| "entity_returning (GetSSHKeyCall key) = True"
| "entity_returning (AddSSHKeyCall opt) = True"
| "entity_returning (AddSSHKeyForUserCall user opt) = True"
| "entity_returning (DeleteSSHKeyCall key) = False"
| "entity_returning (DeleteSSHKeyForUserCall user key) = False"
| "entity_returning (BlockUserCall user) = False"
| "entity_returning (UnblockUserCall user) = False"
| "entity_returning ListEmailsCall = True"
| "entity_returning (ListEmailsForUserCall user opt) = True"
| "entity_returning (GetEmailCall email) = True"
| "entity_returning (AddEmailCall opt) = True"
| "entity_returning (AddEmailForUserCall user opt) = True"
| "entity_returning (DeleteEmailCall email) = False"
| "entity_returning (DeleteEmailForUserCall user email) = False"
| "entity_returning (GetAllImpersonationTokensCall user opt) = True"
| "entity_returning (GetImpersonationTokenCall user token) = True"
| "entity_returning (CreateImpersonationTokenCall user opt) = True"
| "entity_returning (RevokeImpersonationTokenCall user token) = False"
| "entity_returning (GetUserActivitiesCall opt) = True"
| "entity_returning CurrentUserStatusCall = True"
| "entity_returning (GetUserStatusCall user) = True"
| "entity_returning (SetUserStatusCall opt) = True"



section \<open>Statements and examples\<close>



text \<open>
  Instances of the parameters for the examples. An identifier is an integer, a string or
  a value of another type, and \<open>stub_parseID\<close> refuses the last. \<open>stub_client\<close> builds
  the pair of verb and path as its request and answers every request with the given
  status code and error.
\<close>

datatype pid_value = IntID int | StringID string | OtherID

fun stub_parseID :: "pid_value \<Rightarrow> error + string" where
  "stub_parseID (IntID n) = Inr (fmt_d n)"
| "stub_parseID (StringID s) = Inr s"
| "stub_parseID OtherID = Inl (errors_New ''invalid ID type'')"

definition stub_client :: "int \<Rightarrow> error option \<Rightarrow> (string \<times> string, unit, unit) Client" where
  "stub_client code err =
     \<lparr>NewRequest = (\<lambda>method path opt options. Inr (method, path)),
      Do = (\<lambda>req v. ((), Some \<lparr>StatusCode = code\<rparr>, err))\<rparr>"

definition stub_commits :: "int \<Rightarrow> error option \<Rightarrow> (string \<times> string, unit, unit) CommitsService" where
  "stub_commits code err = \<lparr>CommitsService.client = stub_client code err\<rparr>"

definition stub_users :: "int \<Rightarrow> error option \<Rightarrow> (string \<times> string, unit, unit) UsersService" where
  "stub_users code err = \<lparr>UsersService.client = stub_client code err\<rparr>"






text \<open>The segments of a path: the pieces between its slashes.\<close>

fun path_segments :: "string \<Rightarrow> string list" where
  "path_segments [] = [[]]"
| "path_segments (c # cs) =
     (if c = CHR ''/'' then [] # path_segments cs
      else (case path_segments cs of [] \<Rightarrow> [[c]] | x # xs \<Rightarrow> (c # x) # xs))"

section \<open>What every method does with the client\<close>

lemmas commits_defs =
  ListCommits_def GetCommitRefs_def GetCommit_def CreateCommit_def GetCommitDiff_def
  GetCommitComments_def PostCommitComment_def GetCommitStatuses_def SetCommitStatus_def
  GetMergeRequestsByCommit_def CherryPickCommit_def

lemmas users_defs =
  ListUsers_def GetUser_def CreateUser_def ModifyUser_def DeleteUser_def CurrentUser_def
  ListSSHKeys_def ListSSHKeysForUser_def GetSSHKey_def AddSSHKey_def AddSSHKeyForUser_def
  DeleteSSHKey_def DeleteSSHKeyForUser_def BlockUser_def UnblockUser_def ListEmails_def
  ListEmailsForUser_def GetEmail_def AddEmail_def AddEmailForUser_def DeleteEmail_def
  DeleteEmailForUser_def GetAllImpersonationTokens_def GetImpersonationToken_def
  CreateImpersonationToken_def RevokeImpersonationToken_def GetUserActivities_def
  CurrentUserStatus_def GetUserStatus_def SetUserStatus_def


lemmas stub_defs = stub_client_def stub_commits_def stub_users_def

lemmas decimal_defs = fmt_d_def nat_decimal.simps


lemma commits_invoke_request:
  "parseID (call_pid call) = Inr project \<Longrightarrow>
   commits_request project call = (verb, path, opt) \<Longrightarrow>
   commits_invoke parseID s call options log =
     (case NewRequest (CommitsService.client s) verb path opt options of
        Inl err \<Rightarrow> ((None, None, Some err), log @ [NewRequestCall verb path opt options])
      | Inr req \<Rightarrow>
         (case Do (CommitsService.client s) req (commits_target call) of
            (v, resp, err) \<Rightarrow>
              ((if err \<noteq> None then None else Some v, resp, err),
               log @ [NewRequestCall verb path opt options, DoCall req (commits_target call)])))"
  by (cases call)
    (auto simp add: commits_defs client_NewRequest_def client_Do_def
      split: sum.splits prod.splits)

lemma users_invoke_entity:
  "entity_returning call \<Longrightarrow>
   users_request call = (verb, path, opt) \<Longrightarrow>
   users_invoke s call options log =
     (case NewRequest (UsersService.client s) verb path opt options of
        Inl err \<Rightarrow> (Entity (None, None, Some err), log @ [NewRequestCall verb path opt options])
      | Inr req \<Rightarrow>
         (case Do (UsersService.client s) req (users_target call) of
            (v, resp, err) \<Rightarrow>
              (Entity (if err \<noteq> None then None else Some v, resp, err),
               log @ [NewRequestCall verb path opt options, DoCall req (users_target call)])))"
  by (cases call)
    (auto simp add: users_defs client_NewRequest_def client_Do_def
      split: sum.splits prod.splits)



section \<open>Blocking and unblocking a user\<close>




text \<open>
  C9. \<open>BlockUser\<close> and \<open>UnblockUser\<close> return nil exactly when the request is built, \<open>Do\<close>
  returns a response without an error and the status code of the response is 201. With
  any other status code, 200 included, they return an error.
\<close>

theorem block_unblock_success_iff:
  "(fst (BlockUser s user options log) = Returns None \<longleftrightarrow>
      (\<exists>req v resp.
         NewRequest (UsersService.client s) ''POST'' (''users/'' @ fmt_d user @ ''/block'') NilOpt
           options = Inr req
         \<and> Do (UsersService.client s) req GoNil = (v, Some resp, None) \<and> StatusCode resp = 201))
   \<and> (fst (UnblockUser s user options log) = Returns None \<longleftrightarrow>
      (\<exists>req v resp.
         NewRequest (UsersService.client s) ''POST'' (''users/'' @ fmt_d user @ ''/unblock'') NilOpt
           options = Inr req
         \<and> Do (UsersService.client s) req GoNil = (v, Some resp, None) \<and> StatusCode resp = 201))
   \<and> (NewRequest (UsersService.client s) ''POST'' (''users/'' @ fmt_d user @ ''/block'') NilOpt
         options = Inr breq
       \<and> Do (UsersService.client s) breq GoNil = (bv, Some bresp, None) \<and> StatusCode bresp \<noteq> 201
       \<longrightarrow> (\<exists>e. fst (BlockUser s user options log) = Returns (Some e)))
   \<and> (NewRequest (UsersService.client s) ''POST'' (''users/'' @ fmt_d user @ ''/unblock'') NilOpt
         options = Inr ureq
       \<and> Do (UsersService.client s) ureq GoNil = (uv, Some uresp, None) \<and> StatusCode uresp \<noteq> 201
       \<longrightarrow> (\<exists>e. fst (UnblockUser s user options log) = Returns (Some e)))"
  by (auto simp add: BlockUser_def UnblockUser_def client_NewRequest_def client_Do_def Let_def
      split: sum.splits prod.splits option.splits if_splits)

theorem block_unblock_success_iff_witness:
  "fst (BlockUser (stub_users 201 None) 7 [] []) = Returns None
   \<and> (\<exists>e. fst (BlockUser (stub_users 200 None) 7 [] []) = Returns (Some e))
   \<and> (\<exists>e. fst (UnblockUser (stub_users 200 None) 7 [] []) = Returns (Some e))"
  using
    block_unblock_success_iff [where s = "stub_users 201 None" and user = 7
      and options = "[]" and log = "[]"]
    block_unblock_success_iff [where s = "stub_users 200 None" and user = 7
      and options = "[]" and log = "[]"
      and breq = "(''POST'', ''users/7/block'')" and bv = "()" and bresp = "\<lparr>StatusCode = 200\<rparr>"
      and ureq = "(''POST'', ''users/7/unblock'')" and uv = "()"
      and uresp = "\<lparr>StatusCode = 200\<rparr>"]
  by (simp add: stub_defs decimal_defs)




section \<open>Deleting\<close>




section \<open>Errors on the way to the response\<close>

text \<open>
  C8. For every CommitsService method, if \<open>parseID\<close> returns an error for the project
  identifier, the method returns a nil result, a nil Response and that error, and the log of
  client calls is as it was: no request was built and none was sent.
\<close>

theorem parse_error_returns_before_any_request:
  "parseID (call_pid call) = Inl err \<Longrightarrow>
   commits_invoke parseID s call options log = ((None, None, Some err), log)"
  by (cases call) (simp_all add: commits_defs)

theorem parse_error_returns_before_any_request_witness:
  "stub_parseID (call_pid (GetCommitCall OtherID ''abc'')) = Inl (errors_New ''invalid ID type'')
   \<and> commits_invoke stub_parseID (stub_commits 200 None) (GetCommitCall OtherID ''abc'') [] [] =
       ((None, None, Some (errors_New ''invalid ID type'')), [])"
  using parse_error_returns_before_any_request
    [where parseID = stub_parseID and call = "GetCommitCall OtherID ''abc''"
      and err = "errors_New ''invalid ID type''" and s = "stub_commits 200 None"
      and options = "[]" and log = "[]"]
  by simp

text \<open>
  C10. For every method with the results \<open>(entity, *Response, error)\<close>, of either
  service, if \<open>Do\<close> returns an error, the entity returned is nil, and the Response and the
  error are the ones that \<open>Do\<close> returned.
\<close>

theorem Do_error_gives_nil_entity:
  "(parseID (call_pid call) = Inr project \<and> commits_request project call = (verb, path, opt)
      \<and> NewRequest (CommitsService.client s) verb path opt options = Inr req
      \<and> Do (CommitsService.client s) req (commits_target call) = (v, resp, Some e)
    \<longrightarrow> fst (commits_invoke parseID s call options log) = (None, resp, Some e))
   \<and> (entity_returning ucall \<and> users_request ucall = (uverb, upath, uopt)
      \<and> NewRequest (UsersService.client us) uverb upath uopt uoptions = Inr ureq
      \<and> Do (UsersService.client us) ureq (users_target ucall) = (uv, uresp, Some ue)
    \<longrightarrow> fst (users_invoke us ucall uoptions ulog) = Entity (None, uresp, Some ue))"
  by (simp add: commits_invoke_request users_invoke_entity)

theorem Do_error_gives_nil_entity_witness:
  "fst (commits_invoke stub_parseID (stub_commits 500 (Some (errors_New ''500 Internal Server Error'')))
          (CreateCommitCall (IntID 3) None) [] []) =
     (None, Some \<lparr>StatusCode = 500\<rparr>, Some (errors_New ''500 Internal Server Error''))
   \<and> fst (users_invoke (stub_users 500 (Some (errors_New ''500 Internal Server Error'')))
          (GetUserCall 42) [] []) =
     Entity (None, Some \<lparr>StatusCode = 500\<rparr>, Some (errors_New ''500 Internal Server Error''))"
  using Do_error_gives_nil_entity
    [where parseID = stub_parseID and call = "CreateCommitCall (IntID 3) None"
      and project = "''3''" and verb = "''POST''" and path = "''projects/3/repository/commits''"
      and opt = "CreateCommitOpt None"
      and s = "stub_commits 500 (Some (errors_New ''500 Internal Server Error''))"
      and options = "[]" and log = "[]"
      and req = "(''POST'', ''projects/3/repository/commits'')" and v = "()"
      and resp = "Some \<lparr>StatusCode = 500\<rparr>"
      and e = "errors_New ''500 Internal Server Error''"
      and ucall = "GetUserCall 42" and uverb = "''GET''" and upath = "''users/42''"
      and uopt = NilOpt
      and us = "stub_users 500 (Some (errors_New ''500 Internal Server Error''))"
      and uoptions = "[]" and ulog = "[]"
      and ureq = "(''GET'', ''users/42'')" and uv = "()"
      and uresp = "Some \<lparr>StatusCode = 500\<rparr>"
      and ue = "errors_New ''500 Internal Server Error''"]
  by (simp add: stub_defs decimal_defs shouldEscape_def)

section \<open>The request of each operation\<close>

text \<open>
  C4 at the project \<open>group/proj\<close> and the branch \<open>feature/x\<close>, which the comment of
  \<open>GetCommit\<close> allows as its \<open>sha\<close>. The path that \<open>GetCommit\<close> asks for has six segments,
  one more than its own template \<open>projects/%s/repository/commits/%s\<close> has: it is not the
  path of the operation for this commit. \<open>GetUser\<close> for the user 42 does ask for
  \<open>GET users/42\<close> and sends that request.
\<close>

theorem GetCommit_path_has_a_segment_too_many:
  "hd (snd (GetCommit stub_parseID (stub_commits 200 None) (StringID ''group/proj'')
            ''feature/x'' [] []))
     = NewRequestCall ''GET'' ''projects/group%2Fproj/repository/commits/feature/x'' NilOpt []
   \<and> path_segments ''projects/group%2Fproj/repository/commits/feature/x''
     = [''projects'', ''group%2Fproj'', ''repository'', ''commits'', ''feature'', ''x'']
   \<and> path_segments ''projects/%s/repository/commits/%s''
     = [''projects'', ''%s'', ''repository'', ''commits'', ''%s'']
   \<and> snd (GetUser (stub_users 200 None) 42 [] [])
     = [NewRequestCall ''GET'' ''users/42'' NilOpt [],
        DoCall (''GET'', ''users/42'') (new (Named ''User''))]"
  by (simp add: GetCommit_def GetUser_def client_NewRequest_def client_Do_def stub_defs
      shouldEscape_def percent_encode_def decimal_defs Let_def)

section \<open>Round trips\<close>








section \<open>Escaping of the identifiers\<close>

text \<open>
  C2 at the project \<open>group/proj\<close> and the branch \<open>feature/x\<close>. \<open>GetCommit\<close> and
  \<open>SetCommitStatus\<close> escape the project and put the branch into the path as it is, so
  that its slash starts a further path segment; \<open>GetMergeRequestsByCommit\<close> escapes both.
\<close>

theorem GetCommit_puts_sha_unescaped:
  "snd (GetCommit stub_parseID (stub_commits 200 None) (StringID ''group/proj'') ''feature/x'' [] [])
     = [NewRequestCall ''GET'' ''projects/group%2Fproj/repository/commits/feature/x'' NilOpt [],
        DoCall (''GET'', ''projects/group%2Fproj/repository/commits/feature/x'')
          (new (Named ''Commit''))]
   \<and> hd (snd (SetCommitStatus stub_parseID (stub_commits 200 None) (StringID ''group/proj'')
              ''feature/x'' None [] []))
     = NewRequestCall ''POST'' ''projects/group%2Fproj/statuses/feature/x''
         (SetCommitStatusOpt None) []
   \<and> hd (snd (GetMergeRequestsByCommit stub_parseID (stub_commits 200 None)
              (StringID ''group/proj'') ''feature/x'' [] []))
     = NewRequestCall ''GET''
         ''projects/group%2Fproj/repository/commits/feature%2Fx/merge_requests'' NilOpt []"
  by (simp add: GetCommit_def SetCommitStatus_def GetMergeRequestsByCommit_def
      client_NewRequest_def client_Do_def stub_defs shouldEscape_def percent_encode_def Let_def)

section \<open>Unset and set fields of the options\<close>











text \<open>
  The tags of the source: an unset field has a \<open>json\<close> tag without \<open>omitempty\<close> exactly when
  it is in the list for the body, and it has an entry in the query exactly when it is in the
  list for the query.
\<close>

lemma pointer_unset [simp]:
  "pointer w p = NilPointer \<longleftrightarrow> p = None" "pointer w p \<noteq> NilSlice"
  "slice v xs = NilSlice \<longleftrightarrow> xs = None" "slice v xs \<noteq> NilPointer"
  by (simp_all add: pointer_def slice_def split: option.splits)






end
